theory Spec2Isabelle
  imports Main "HOL-Library.Word"
begin

section \<open>Run-time values\<close>

text \<open>
  The two functions are declared on \<open>string\<close>, but the source calls them from untyped
  JavaScript as well (its test passes \<open>undefined as any\<close>, its comments name a
  \<open>moment()\<close> object), so the argument is a run-time value.

  A string is the list of its code units, one \<open>char\<close> each, which covers the code
  units below 256. The functions only compare a code unit with \<open>T\<close>, \<open>Z\<close>, \<open>+\<close>, \<open>-\<close> and
  \<open>:\<close>, compare positions and cut a suffix, so a wider code unit behaves as any other
  character that is none of these five.

  \<open>JNumber n\<close> is the number whose value is the signed integer \<open>sint n\<close>, from \<open>-2^53\<close> to
  \<open>2^53 - 1\<close>: JavaScript holds each of these exactly and writes it in decimal.

  \<open>JObject c\<close> is an object that has no \<open>includes\<close> property; \<open>c\<close> is what converting it to
  a string does. \<open>Inr t\<close> yields the text \<open>t\<close>. \<open>Inl e\<close> throws \<open>e\<close>: an object with no usable
  \<open>toString\<close> and \<open>valueOf\<close>, such as \<open>Object.create(null)\<close>, throws \<open>TypeError\<close>, and a
  \<open>toString\<close> of the object's own can throw anything, which is \<open>Thrown\<close> with its message.
\<close>

datatype js_error = TypeError | Thrown string

datatype js_value =
    JUndefined
  | JNull
  | JBool bool
  | JNumber "54 word"
  | JString string
  | JObject "js_error + string"

text \<open>\<open>!dateStr\<close> is the negation of this.\<close>

fun truthy :: "js_value \<Rightarrow> bool" where
  "truthy JUndefined = False"
| "truthy JNull = False"
| "truthy (JBool b) = b"
| "truthy (JNumber n) = (n \<noteq> 0)"
| "truthy (JString s) = (s \<noteq> [])"
| "truthy (JObject t) = True"

fun typeof :: "js_value \<Rightarrow> string" where
  "typeof JUndefined = ''undefined''"
| "typeof JNull = ''object''"
| "typeof (JBool b) = ''boolean''"
| "typeof (JNumber n) = ''number''"
| "typeof (JString s) = ''string''"
| "typeof (JObject t) = ''object''"

subsection \<open>The string methods the source calls\<close>

text \<open>
  Each needle in the source is a one-character literal, so the needle is a \<open>char\<close>.
  \<open>includes\<close> is a JavaScript method; the suffix keeps the name apart from other uses.
\<close>

definition includes_js :: "string \<Rightarrow> char \<Rightarrow> bool" where
  "includes_js s c = (c \<in> set s)"

text \<open>\<open>s.at(i)\<close>: a negative index counts from the end; out of range is \<open>undefined\<close>.\<close>

definition at :: "string \<Rightarrow> int \<Rightarrow> char option" where
  "at s i =
     (let k = (if i < 0 then int (length s) + i else i)
      in if k < 0 \<or> int (length s) \<le> k then None else Some (s ! nat k))"

text \<open>
  \<open>s.lastIndexOf(c)\<close> scans from the last position down to the first and answers the
  first position that holds \<open>c\<close>, or \<open>-1\<close>. \<open>lastIndexOf_from s c k\<close> has the positions
  below \<open>k\<close> left to visit.
\<close>

fun lastIndexOf_from :: "string \<Rightarrow> char \<Rightarrow> nat \<Rightarrow> int" where
  "lastIndexOf_from s c 0 = - 1"
| "lastIndexOf_from s c (Suc k) = (if s ! k = c then int k else lastIndexOf_from s c k)"

definition lastIndexOf :: "string \<Rightarrow> char \<Rightarrow> int" where
  "lastIndexOf s c = lastIndexOf_from s c (length s)"

text \<open>\<open>s.slice(start)\<close> with no end: a negative start counts from the end, and the start
  is clamped to the string.\<close>

definition slice :: "string \<Rightarrow> int \<Rightarrow> string" where
  "slice s start =
     (let from = (if start < 0 then max (int (length s) + start) 0
                  else min start (int (length s)))
      in drop (nat from) s)"

section \<open>getISOTimezoneOffset\<close>

text \<open>
  A method call on a value that has no such method raises \<open>TypeError\<close>; that is the
  only way this function can fail, and it is the \<open>Inl\<close> branch. \<open>undefined\<close> and \<open>null\<close>
  never reach a method call: they are falsy.
\<close>

definition getISOTimezoneOffset :: "js_value \<Rightarrow> js_error + string" where
  "getISOTimezoneOffset dateStr =
     (if \<not> truthy dateStr then Inr ''UTC''
      else case dateStr of
        JString s \<Rightarrow>
          if \<not> includes_js s CHR ''T'' then Inr ''UTC''
          else if at s (- 1) = Some CHR ''Z'' then Inr ''UTC''
          else
            let positiveTzOffsetStartIndex = lastIndexOf s CHR ''+''
            in if positiveTzOffsetStartIndex > - 1
               then Inr (slice s positiveTzOffsetStartIndex)
               else
                 let negativeTzOffsetStartIndex = lastIndexOf s CHR ''-'';
                     lastColonCharacterIndex = lastIndexOf s CHR '':''
                 in if negativeTzOffsetStartIndex > - 1
                       \<and> lastColonCharacterIndex > - 1
                       \<and> negativeTzOffsetStartIndex > lastColonCharacterIndex
                    then Inr (slice s negativeTzOffsetStartIndex)
                    else Inr ''UTC''
      | _ \<Rightarrow> Inl TypeError)"

section \<open>parseISOToDateInTimezone\<close>

text \<open>The decimal digits of a natural number.\<close>

function string_of_nat :: "nat \<Rightarrow> string" where
  "string_of_nat n =
     (if n < 10 then [char_of (48 + n)]
      else string_of_nat (n div 10) @ [char_of (48 + n mod 10)])"
  by pat_completeness auto
termination
  by (relation "measure id") auto

declare string_of_nat.simps [simp del]

text \<open>
  \<open>String(v)\<close>. It returns a text on every primitive value: an integer of the range of
  \<open>JNumber\<close> is written in decimal. On an object it does what the conversion of the object
  does, which can throw.
\<close>

fun String_js :: "js_value \<Rightarrow> js_error + string" where
  "String_js JUndefined = Inr ''undefined''"
| "String_js JNull = Inr ''null''"
| "String_js (JBool b) = Inr (if b then ''true'' else ''false'')"
| "String_js (JNumber n) =
     Inr (if sint n < 0 then CHR ''-'' # string_of_nat (nat (- sint n))
          else string_of_nat (nat (sint n)))"
| "String_js (JString s) = Inr s"
| "String_js (JObject c) = c"

text \<open>
  What a call leaves behind: the arguments of each \<open>console.warn\<close> after the message,
  and either the value returned or the error raised.
\<close>

record 'z outcome =
  warnings :: "js_value list"
  result :: "js_error + 'z"

text \<open>
  \<open>TZDate\<close> comes from the package \<open>@date-fns/tz\<close>, so its two constructors are
  parameters: \<open>TZDate0\<close> is what \<open>new TZDate()\<close> yields at the moment of the call,
  \<open>TZDate2 d tz\<close> is \<open>new TZDate(d, tz)\<close>. \<open>NODE_ENV\<close> is \<open>process.env.NODE_ENV\<close>,
  \<open>None\<close> when it is not set.

  The warning is written before \<open>String(dateStr)\<close> runs, so it is there when the
  conversion throws. The arguments of
  \<open>new TZDate(dateStr, getISOTimezoneOffset(dateStr))\<close> are evaluated before the
  constructor runs, so an error in \<open>getISOTimezoneOffset\<close> is the error of the call.
\<close>

definition parseISOToDateInTimezone ::
  "'z \<Rightarrow> (js_value \<Rightarrow> string \<Rightarrow> 'z) \<Rightarrow> string option \<Rightarrow> js_value \<Rightarrow> 'z outcome" where
  "parseISOToDateInTimezone TZDate0 TZDate2 NODE_ENV dateStr =
     (if \<not> truthy dateStr then \<lparr>warnings = [], result = Inr TZDate0\<rparr>
      else
        let nonString = (typeof dateStr \<noteq> ''string'');
            warned = (if nonString then [dateStr] else []);
            coerced = (if nonString \<and> NODE_ENV = Some ''production''
                       then (case String_js dateStr of
                               Inl e \<Rightarrow> Inl e
                             | Inr t \<Rightarrow> Inr (JString t))
                       else Inr dateStr)
        in case coerced of
             Inl e \<Rightarrow> \<lparr>warnings = warned, result = Inl e\<rparr>
           | Inr dateStr' \<Rightarrow>
               (case getISOTimezoneOffset dateStr' of
                  Inl e \<Rightarrow> \<lparr>warnings = warned, result = Inl e\<rparr>
                | Inr tz \<Rightarrow> \<lparr>warnings = warned, result = Inr (TZDate2 dateStr' tz)\<rparr>))"

section \<open>The shapes the specification names\<close>

text \<open>
  These follow the specification and ISO 8601, not the source. In a pattern, \<open>D\<close>
  stands for one decimal digit and every other character for itself.
\<close>

definition is_digit :: "char \<Rightarrow> bool" where
  "is_digit c = (c \<in> set ''0123456789'')"

fun matches :: "string \<Rightarrow> string \<Rightarrow> bool" where
  "matches [] [] = True"
| "matches (p # ps) (c # cs) =
     ((if p = CHR ''D'' then is_digit c else c = p) \<and> matches ps cs)"
| "matches _ _ = False"

text \<open>The offset literal \<open>(+|-)HHMM\<close> of the specification.\<close>

definition offset_hhmm :: "string \<Rightarrow> bool" where
  "offset_hhmm tz = (matches ''+DDDD'' tz \<or> matches ''-DDDD'' tz)"

text \<open>
  The numeric offsets of ISO 8601: a sign, then the hours, or the hours and the minutes,
  with or without a colon between them.
\<close>

definition numeric_offset :: "string \<Rightarrow> bool" where
  "numeric_offset tz =
     (matches ''+DD'' tz \<or> matches ''+DDDD'' tz \<or> matches ''+DD:DD'' tz
      \<or> matches ''-DD'' tz \<or> matches ''-DDDD'' tz \<or> matches ''-DD:DD'' tz)"

section \<open>The zoned value, as the specification describes it\<close>

text \<open>
  Modelled from the spec: the zoned-datetime value type (\<open>TZDate\<close> of \<open>@date-fns/tz\<close>)
  is not part of the sources. The specification gives it wall-clock components (year,
  month, day, hour, minute, second) that equal those written in the raw timestamp, and an
  associated offset that equals the offset literal.
\<close>

record wall_clock =
  year :: nat
  month :: nat
  day :: nat
  hour :: nat
  minute :: nat
  second :: nat

text \<open>
  Modelled from the spec: the values of the missing type. \<open>Current\<close> is the zero-argument
  construction, the current moment with no explicit offset; \<open>Invalid\<close> is the invalid marker
  a malformed literal may yield; \<open>Zoned w tz\<close> has the wall-clock fields \<open>w\<close> and is tagged
  with the offset \<open>tz\<close>.
\<close>

datatype ZonedTimestamp =
    Current
  | Invalid
  | Zoned wall_clock string

text \<open>Modelled from the spec: the number that a run of decimal digits writes, needed to
  read a wall-clock field of the literal as written.\<close>

fun number_of :: "string \<Rightarrow> nat \<Rightarrow> nat" where
  "number_of [] acc = acc"
| "number_of (c # cs) acc = number_of cs (10 * acc + (of_char c - 48))"

text \<open>Modelled from the spec: the field written in the \<open>n\<close> characters from position \<open>i\<close>.\<close>

definition field :: "string \<Rightarrow> nat \<Rightarrow> nat \<Rightarrow> nat" where
  "field s i n = number_of (take n (drop i s)) 0"

text \<open>
  Modelled from the spec: the two-argument construction of the missing type, from the raw
  literal and the offset literal. It preserves the wall-clock fields of the literal and
  tags the value with the given offset. The literal is read in the layout
  \<open>YYYY-MM-DDTHH:MM:SS\<close> that the specification uses for the date and the time portion;
  whatever follows the seconds is not a wall-clock field. Anything else is invalid.
\<close>

definition TZDate2 :: "js_value \<Rightarrow> string \<Rightarrow> ZonedTimestamp" where
  "TZDate2 d tz =
     (case d of
        JString s \<Rightarrow>
          if matches ''DDDD-DD-DDTDD:DD:DD'' (take 19 s)
          then Zoned \<lparr>year = field s 0 4, month = field s 5 2, day = field s 8 2,
                      hour = field s 11 2, minute = field s 14 2, second = field s 17 2\<rparr> tz
          else Invalid
      | _ \<Rightarrow> Invalid)"

text \<open>Modelled from the spec: the hour accessor of the missing type. Only a value built
  from a literal has an hour that the literal determines.\<close>

fun getHours :: "ZonedTimestamp \<Rightarrow> nat option" where
  "getHours (Zoned w tz) = Some (hour w)"
| "getHours _ = None"

text \<open>Modelled from the spec: the offset the value is tagged with.\<close>

fun offset_of :: "ZonedTimestamp \<Rightarrow> string option" where
  "offset_of (Zoned w tz) = Some tz"
| "offset_of _ = None"

section \<open>Facts about the string methods\<close>

lemma lastIndexOf_from_absent:
  "k \<le> length s \<Longrightarrow> c \<notin> set s \<Longrightarrow> lastIndexOf_from s c k = - 1"
  by (induction k) auto

lemma lastIndexOf_absent: "c \<notin> set s \<Longrightarrow> lastIndexOf s c = - 1"
  by (simp add: lastIndexOf_def lastIndexOf_from_absent)

lemma lastIndexOf_from_split:
  "c \<notin> set q \<Longrightarrow> m \<le> length q \<Longrightarrow>
   lastIndexOf_from (p @ c # q) c (Suc (length p + m)) = int (length p)"
  by (induction m) (auto simp: nth_append)

lemma lastIndexOf_split:
  "c \<notin> set q \<Longrightarrow> lastIndexOf (p @ c # q) c = int (length p)"
  using lastIndexOf_from_split [of c q "length q" p] by (simp add: lastIndexOf_def)

lemma lastIndexOf_present:
  assumes "c \<in> set s"
  obtains p q where "s = p @ c # q" and "c \<notin> set q" and "lastIndexOf s c = int (length p)"
  using assms split_list_last [of c s] lastIndexOf_split by blast

lemma lastIndexOf_found_iff: "lastIndexOf s c > - 1 \<longleftrightarrow> c \<in> set s"
proof
  assume "lastIndexOf s c > - 1"
  then show "c \<in> set s" using lastIndexOf_absent [of c s] by force
next
  assume "c \<in> set s"
  then show "lastIndexOf s c > - 1" by (rule lastIndexOf_present) simp
qed

lemma slice_split: "slice (p @ r) (int (length p)) = r"
  by (simp add: slice_def)

lemma at_last: "s \<noteq> [] \<Longrightarrow> at s (- 1) = Some (last s)"
  by (simp add: at_def last_conv_nth nat_diff_distrib' Let_def) 

section \<open>The branches of getISOTimezoneOffset\<close>

lemma getISOTimezoneOffset_falsy:
  "\<not> truthy v \<Longrightarrow> getISOTimezoneOffset v = Inr ''UTC''"
  by (simp add: getISOTimezoneOffset_def)

text \<open>On a string no branch raises.\<close>

lemma getISOTimezoneOffset_string_returns:
  "\<exists>tz. getISOTimezoneOffset (JString s) = Inr tz"
  by (simp add: getISOTimezoneOffset_def Let_def)

text \<open>The string branch, once the three early returns are passed.\<close>

lemma getISOTimezoneOffset_scan:
  assumes "CHR ''T'' \<in> set s" and "last s \<noteq> CHR ''Z''"
  shows "getISOTimezoneOffset (JString s) =
     (if lastIndexOf s CHR ''+'' > - 1 then Inr (slice s (lastIndexOf s CHR ''+''))
      else if lastIndexOf s CHR ''-'' > - 1 \<and> lastIndexOf s CHR '':'' > - 1
              \<and> lastIndexOf s CHR ''-'' > lastIndexOf s CHR '':''
           then Inr (slice s (lastIndexOf s CHR ''-''))
           else Inr ''UTC'')"
proof -
  from assms(1) have ne: "s \<noteq> []" by auto
  show ?thesis
    using assms ne by (simp add: getISOTimezoneOffset_def includes_js_def at_last Let_def)
qed

lemma getISOTimezoneOffset_plus:
  assumes "CHR ''T'' \<in> set (p @ CHR ''+'' # q)" and "last (CHR ''+'' # q) \<noteq> CHR ''Z''"
    and "CHR ''+'' \<notin> set q"
  shows "getISOTimezoneOffset (JString (p @ CHR ''+'' # q)) = Inr (CHR ''+'' # q)"
proof -
  have z: "last (p @ CHR ''+'' # q) \<noteq> CHR ''Z''" using assms(2) by simp
  show ?thesis
    by (simp add: getISOTimezoneOffset_scan [OF assms(1) z] lastIndexOf_split [OF assms(3)]
        slice_split)
qed

lemma getISOTimezoneOffset_plus_suffix:
  assumes "CHR ''T'' \<in> set s" and "last s \<noteq> CHR ''Z''" and "CHR ''+'' \<in> set s"
  shows "\<exists>p q. s = p @ CHR ''+'' # q \<and> CHR ''+'' \<notin> set q
           \<and> getISOTimezoneOffset (JString s) = Inr (CHR ''+'' # q)"
proof -
  from assms(3) obtain p q where s: "s = p @ CHR ''+'' # q" and q: "CHR ''+'' \<notin> set q"
    using split_list_last [of "CHR ''+''" s] by blast
  have "getISOTimezoneOffset (JString (p @ CHR ''+'' # q)) = Inr (CHR ''+'' # q)"
    using assms(1,2) q unfolding s by (intro getISOTimezoneOffset_plus) simp_all
  with s q show ?thesis by blast
qed

lemma getISOTimezoneOffset_minus:
  assumes "CHR ''T'' \<in> set (p @ CHR ''-'' # q)" and "last (CHR ''-'' # q) \<noteq> CHR ''Z''"
    and "CHR ''+'' \<notin> set (p @ CHR ''-'' # q)"
    and "CHR ''-'' \<notin> set q" and "CHR '':'' \<notin> set q" and "CHR '':'' \<in> set p"
  shows "getISOTimezoneOffset (JString (p @ CHR ''-'' # q)) = Inr (CHR ''-'' # q)"
proof -
  let ?s = "p @ CHR ''-'' # q"
  have z: "last ?s \<noteq> CHR ''Z''" using assms(2) by simp
  have plus: "lastIndexOf ?s CHR ''+'' = - 1" using assms(3) by (rule lastIndexOf_absent)
  have minus: "lastIndexOf ?s CHR ''-'' = int (length p)"
    using assms(4) by (rule lastIndexOf_split)
  from assms(6) obtain p1 p2 where p: "p = p1 @ CHR '':'' # p2" and p2: "CHR '':'' \<notin> set p2"
    using split_list_last [of "CHR '':''" p] by blast
  have "CHR '':'' \<notin> set (p2 @ CHR ''-'' # q)" using p2 assms(5) by simp
  then have "lastIndexOf (p1 @ CHR '':'' # (p2 @ CHR ''-'' # q)) CHR '':'' = int (length p1)"
    by (rule lastIndexOf_split)
  then have colon: "lastIndexOf ?s CHR '':'' = int (length p1)" by (simp add: p)
  have lt: "length p1 < length p" by (simp add: p)
  show ?thesis
    using lt by (simp add: getISOTimezoneOffset_scan [OF assms(1) z] plus minus colon slice_split)
qed

lemma getISOTimezoneOffset_utc:
  assumes "CHR ''T'' \<in> set s" and "last s \<noteq> CHR ''Z''" and "CHR ''+'' \<notin> set s"
    and "\<not> (\<exists>p q. s = p @ CHR ''-'' # q \<and> CHR ''-'' \<notin> set q \<and> CHR '':'' \<notin> set q
              \<and> CHR '':'' \<in> set p)"
  shows "getISOTimezoneOffset (JString s) = Inr ''UTC''"
proof -
  have plus: "lastIndexOf s CHR ''+'' = - 1" using assms(3) by (rule lastIndexOf_absent)
  have "\<not> (lastIndexOf s CHR ''-'' > - 1 \<and> lastIndexOf s CHR '':'' > - 1
            \<and> lastIndexOf s CHR ''-'' > lastIndexOf s CHR '':'')"
  proof
    assume h: "lastIndexOf s CHR ''-'' > - 1 \<and> lastIndexOf s CHR '':'' > - 1
            \<and> lastIndexOf s CHR ''-'' > lastIndexOf s CHR '':''"
    then have "CHR ''-'' \<in> set s" and "CHR '':'' \<in> set s"
      by (simp_all add: lastIndexOf_found_iff)
    then obtain p q p' q' where
      m: "s = p @ CHR ''-'' # q" "CHR ''-'' \<notin> set q" "lastIndexOf s CHR ''-'' = int (length p)"
      and c: "s = p' @ CHR '':'' # q'" "CHR '':'' \<notin> set q'"
        "lastIndexOf s CHR '':'' = int (length p')"
      by (elim lastIndexOf_present) blast
    from h m(3) c(3) have lt: "length p' < length p" by simp
    from m(1) c(1) have eq: "p @ CHR ''-'' # q = p' @ CHR '':'' # q'" by simp
    from eq lt obtain us where us: "p = p' @ us" "us @ CHR ''-'' # q = CHR '':'' # q'"
      by (auto simp: append_eq_append_conv2)
    from us(1) lt have "us \<noteq> []" by auto
    then obtain us' where "us = CHR '':'' # us'" "q' = us' @ CHR ''-'' # q"
      using us(2) by (cases us) auto
    then have "CHR '':'' \<in> set p" "CHR '':'' \<notin> set q" using us(1) c(2) by auto
    with m(1,2) assms(4) show False by blast
  qed
  then show ?thesis
    using plus by (auto simp add: getISOTimezoneOffset_scan [OF assms(1,2)])
qed

text \<open>
  A negative offset written with a colon has its \<open>-\<close> before its last \<open>:\<close>, so it is not
  taken for an offset, where the positive one is: \<open>2019-03-02T07:18:00+01:00\<close> gives
  \<open>+01:00\<close> and \<open>2019-03-02T07:18:00-01:00\<close> gives \<open>UTC\<close>.
\<close>

lemma getISOTimezoneOffset_colon_offsets:
  "getISOTimezoneOffset (JString ''2019-03-02T07:18:00+01:00'') = Inr ''+01:00''
   \<and> getISOTimezoneOffset (JString ''2019-03-02T07:18:00-01:00'') = Inr ''UTC''"
  by (simp add: getISOTimezoneOffset_def includes_js_def at_def lastIndexOf_def slice_def)

section \<open>Facts about the shapes\<close>

lemma matches_literal:
  "matches pat s \<Longrightarrow> c \<in> set pat \<Longrightarrow> c \<noteq> CHR ''D'' \<Longrightarrow> c \<in> set s"
  by (induction pat s rule: matches.induct) (auto split: if_splits)

lemma matches_chars:
  "matches pat s \<Longrightarrow> c \<in> set s \<Longrightarrow> is_digit c \<or> (c \<in> set pat \<and> c \<noteq> CHR ''D'')"
  by (induction pat s rule: matches.induct) (auto split: if_splits)

lemma matches_last_digit:
  "matches pat s \<Longrightarrow> pat \<noteq> [] \<Longrightarrow> last pat = CHR ''D'' \<Longrightarrow> s \<noteq> [] \<and> is_digit (last s)"
proof (induction pat s rule: matches.induct)
  case (2 p ps c cs)
  show ?case
  proof (cases "ps = []")
    case True
    with 2 show ?thesis by (cases cs) auto
  next
    case False
    with 2 have "cs \<noteq> [] \<and> is_digit (last cs)" by simp
    then show ?thesis by simp
  qed
qed simp_all

lemma matches_sign:
  assumes "matches (sign # body) tz" and "sign \<noteq> CHR ''D''"
  obtains q where "tz = sign # q" and "matches body q"
  using assms by (cases tz) auto

lemma not_digit: "\<not> is_digit CHR ''+''" "\<not> is_digit CHR ''-''" "\<not> is_digit CHR '':''"
  "\<not> is_digit CHR ''Z''"
  by (simp_all add: is_digit_def)

lemma matches_offset_body:
  assumes "matches body q" and "body = ''DD'' \<or> body = ''DDDD'' \<or> body = ''DD:DD''"
  shows "q \<noteq> []" and "is_digit (last q)" and "CHR ''+'' \<notin> set q" and "CHR ''-'' \<notin> set q"
proof -
  from assms(2) have b: "body \<noteq> []" "last body = CHR ''D''" by auto
  from matches_last_digit [OF assms(1) b] show "q \<noteq> []" and "is_digit (last q)" by simp_all
  show "CHR ''+'' \<notin> set q"
    using matches_chars [OF assms(1), of "CHR ''+''"] assms(2) not_digit by auto
  show "CHR ''-'' \<notin> set q"
    using matches_chars [OF assms(1), of "CHR ''-''"] assms(2) not_digit by auto
qed

lemma numeric_offset_shape:
  assumes "numeric_offset tz"
  obtains q where "tz = hd tz # q" and "hd tz = CHR ''+'' \<or> hd tz = CHR ''-''"
    and "q \<noteq> []" and "is_digit (last q)" and "CHR ''+'' \<notin> set q" and "CHR ''-'' \<notin> set q"
proof -
  from assms obtain sign body where m: "matches (sign # body) tz"
    and sign: "sign = CHR ''+'' \<or> sign = CHR ''-''"
    and body: "body = ''DD'' \<or> body = ''DDDD'' \<or> body = ''DD:DD''"
    unfolding numeric_offset_def by blast
  from sign have "sign \<noteq> CHR ''D''" by auto
  with m obtain q where tz: "tz = sign # q" and q: "matches body q" by (rule matches_sign)
  note matches_offset_body [OF q body]
  with tz sign that show ?thesis by simp
qed

lemma offset_last:
  assumes "q \<noteq> []" and "is_digit (last q)"
  shows "last (sign # q) \<noteq> CHR ''Z''"
  using assms not_digit(4) by auto


text \<open>
  A negative offset written with a colon is not taken for an offset: its \<open>-\<close> is before
  its \<open>:\<close>, so the answer is \<open>UTC\<close>, where the positive \<open>+HH:MM\<close> is answered as written.
\<close>

lemma getISOTimezoneOffset_negative_colon_offset:
  assumes "CHR ''T'' \<in> set dt" and "CHR ''+'' \<notin> set dt" and "matches ''-DD:DD'' tz"
  shows "getISOTimezoneOffset (JString (dt @ tz)) = Inr ''UTC''"
proof -
  from assms(3) obtain q where tz: "tz = CHR ''-'' # q" and q: "matches ''DD:DD'' q"
    by (rule matches_sign) simp
  have body: "q \<noteq> []" "is_digit (last q)" "CHR ''+'' \<notin> set q" "CHR ''-'' \<notin> set q"
    using matches_offset_body [OF q] by simp_all
  have colon: "CHR '':'' \<in> set q" using q by (rule matches_literal) simp_all
  let ?s = "dt @ CHR ''-'' # q"
  have "getISOTimezoneOffset (JString ?s) = Inr ''UTC''"
  proof (rule getISOTimezoneOffset_utc)
    show "CHR ''T'' \<in> set ?s" using assms(1) by simp
    show "last ?s \<noteq> CHR ''Z''" using offset_last [OF body(1,2)] by simp
    show "CHR ''+'' \<notin> set ?s" using assms(2) body(3) by simp
    show "\<not> (\<exists>p r. ?s = p @ CHR ''-'' # r \<and> CHR ''-'' \<notin> set r \<and> CHR '':'' \<notin> set r
                \<and> CHR '':'' \<in> set p)"
    proof
      assume "\<exists>p r. ?s = p @ CHR ''-'' # r \<and> CHR ''-'' \<notin> set r \<and> CHR '':'' \<notin> set r
                \<and> CHR '':'' \<in> set p"
      then obtain p r where e: "?s = p @ CHR ''-'' # r" and r: "CHR ''-'' \<notin> set r"
        "CHR '':'' \<notin> set r" by blast
      have "lastIndexOf ?s CHR ''-'' = int (length dt)"
        using body(4) by (rule lastIndexOf_split)
      moreover have "lastIndexOf (p @ CHR ''-'' # r) CHR ''-'' = int (length p)"
        using r(1) by (rule lastIndexOf_split)
      ultimately have "length dt = length p" using e by simp
      with e have "q = r" by simp
      with colon r(2) show False by simp
    qed
  qed
  then show ?thesis by (simp add: tz)
qed

section \<open>The claims about getISOTimezoneOffset\<close>

text \<open>
  C4. \<open>getISOTimezoneOffset\<close> answers \<open>UTC\<close> on the empty string, on \<open>undefined\<close> and
  the other falsy values, on the date-only \<open>2020-10-14\<close>, on \<open>2020-10-14T14:03:00\<close>, whose
  only \<open>-\<close> are in the date, and on \<open>2020-10-14T14:03:00Z\<close>.
\<close>

theorem getISOTimezoneOffset_UTC_examples:
  "getISOTimezoneOffset (JString '''') = Inr ''UTC''
   \<and> getISOTimezoneOffset JUndefined = Inr ''UTC''
   \<and> getISOTimezoneOffset JNull = Inr ''UTC''
   \<and> getISOTimezoneOffset (JBool False) = Inr ''UTC''
   \<and> getISOTimezoneOffset (JNumber 0) = Inr ''UTC''
   \<and> getISOTimezoneOffset (JString ''2020-10-14'') = Inr ''UTC''
   \<and> getISOTimezoneOffset (JString ''2020-10-14T14:03:00'') = Inr ''UTC''
   \<and> getISOTimezoneOffset (JString ''2020-10-14T14:03:00Z'') = Inr ''UTC''"
  by (simp add: getISOTimezoneOffset_def includes_js_def at_def lastIndexOf_def slice_def)

text \<open>
  C1, amended. Take a string \<open>dt @ tz\<close> where \<open>dt\<close> holds a \<open>T\<close> and \<open>tz\<close> is a numeric offset:
  a sign, then \<open>HH\<close>, \<open>HHMM\<close> or \<open>HH:MM\<close>. When the offset is positive,
  \<open>getISOTimezoneOffset\<close> answers exactly \<open>tz\<close>, whatever \<open>dt\<close> is. When it is negative, the
  answer is exactly \<open>tz\<close> if \<open>dt\<close> holds a colon and no \<open>+\<close> and the offset is written without
  a colon. Nothing is said here of the negative offset \<open>-HH:MM\<close>.
\<close>

theorem getISOTimezoneOffset_trailing_offset:
  assumes "CHR ''T'' \<in> set dt" and "numeric_offset tz"
    and "hd tz = CHR ''+''
         \<or> (CHR '':'' \<in> set dt \<and> CHR ''+'' \<notin> set dt \<and> CHR '':'' \<notin> set tz)"
  shows "getISOTimezoneOffset (JString (dt @ tz)) = Inr tz"
proof -
  from assms(2) obtain q where tz: "tz = hd tz # q"
    and sign: "hd tz = CHR ''+'' \<or> hd tz = CHR ''-''"
    and q: "q \<noteq> []" "is_digit (last q)" "CHR ''+'' \<notin> set q" "CHR ''-'' \<notin> set q"
    by (rule numeric_offset_shape)
  show ?thesis
  proof (cases "hd tz = CHR ''+''")
    case True
    then have e: "tz = CHR ''+'' # q" using tz by simp
    have "last (CHR ''+'' # q) \<noteq> CHR ''Z''" using q(1,2) by (rule offset_last)
    then show ?thesis
      unfolding e using assms(1) q(3) by (intro getISOTimezoneOffset_plus) simp_all
  next
    case False
    then have e: "tz = CHR ''-'' # q" using tz sign by simp
    from False assms(3) have c: "CHR '':'' \<in> set dt" "CHR ''+'' \<notin> set dt"
      "CHR '':'' \<notin> set tz" by simp_all
    from c(3) have cq: "CHR '':'' \<notin> set q" by (simp add: e)
    have "last (CHR ''-'' # q) \<noteq> CHR ''Z''" using q(1,2) by (rule offset_last)
    then show ?thesis
      unfolding e using assms(1) c(1,2) cq q(3,4) by (intro getISOTimezoneOffset_minus) simp_all
  qed
qed

text \<open>
  C1 at the two inputs the claim names, \<open>2020-10-14T14:03:00+0200\<close> and
  \<open>2020-10-14T14:03:00-0200\<close>, and at a positive offset written with a colon.
\<close>

theorem getISOTimezoneOffset_trailing_offset_witness:
  "CHR ''T'' \<in> set ''2020-10-14T14:03:00'' \<and> CHR '':'' \<in> set ''2020-10-14T14:03:00''
   \<and> CHR ''+'' \<notin> set ''2020-10-14T14:03:00''
   \<and> numeric_offset ''+0200'' \<and> numeric_offset ''-0200'' \<and> numeric_offset ''+01:00''
   \<and> hd ''+0200'' = CHR ''+'' \<and> hd ''+01:00'' = CHR ''+'' \<and> CHR '':'' \<notin> set ''-0200''
   \<and> getISOTimezoneOffset (JString ''2020-10-14T14:03:00+0200'') = Inr ''+0200''
   \<and> getISOTimezoneOffset (JString ''2020-10-14T14:03:00-0200'') = Inr ''-0200''
   \<and> getISOTimezoneOffset (JString ''2020-10-14T14:03:00+01:00'') = Inr ''+01:00''"
proof -
  let ?dt = "''2020-10-14T14:03:00''"
  have T: "CHR ''T'' \<in> set ?dt" and c: "CHR '':'' \<in> set ?dt" and np: "CHR ''+'' \<notin> set ?dt"
    by simp_all
  have pos: "numeric_offset ''+0200''" and neg: "numeric_offset ''-0200''"
    and col: "numeric_offset ''+01:00''"
    by (simp_all add: numeric_offset_def is_digit_def)
  have "getISOTimezoneOffset (JString (?dt @ ''+0200'')) = Inr ''+0200''"
    using T pos by (rule getISOTimezoneOffset_trailing_offset) simp
  moreover
  have "getISOTimezoneOffset (JString (?dt @ ''-0200'')) = Inr ''-0200''"
    using T neg by (rule getISOTimezoneOffset_trailing_offset) simp
  moreover
  have "getISOTimezoneOffset (JString (?dt @ ''+01:00'')) = Inr ''+01:00''"
    using T col by (rule getISOTimezoneOffset_trailing_offset) simp
  ultimately show ?thesis using T c np pos neg col by simp
qed

text \<open>
  C1 as stated fails on the basic format of ISO 8601: \<open>20201014T140300-0200\<close> is the date
  \<open>20201014\<close>, the time \<open>140300\<close> and the offset \<open>-0200\<close>, it holds no colon, and the answer
  is \<open>UTC\<close>.
\<close>

theorem getISOTimezoneOffset_basic_format_counterexample:
  "CHR ''T'' \<in> set ''20201014T140300'' \<and> numeric_offset ''-0200''
   \<and> getISOTimezoneOffset (JString (''20201014T140300'' @ ''-0200'')) = Inr ''UTC''
   \<and> getISOTimezoneOffset (JString (''20201014T140300'' @ ''-0200'')) \<noteq> Inr ''-0200''"
  by (simp add: numeric_offset_def is_digit_def getISOTimezoneOffset_def
      includes_js_def at_def lastIndexOf_def slice_def)

text \<open>
  C2. A string that is not empty, holds a \<open>T\<close>, does not end in \<open>Z\<close> and holds a \<open>+\<close> is
  answered with its part from the last \<open>+\<close> to the end: the string is \<open>p @ + # q\<close> with no
  \<open>+\<close> in \<open>q\<close>, and the answer is \<open>+ # q\<close>.
\<close>

theorem getISOTimezoneOffset_last_plus:
  assumes "s \<noteq> []" and "CHR ''T'' \<in> set s" and "last s \<noteq> CHR ''Z''"
    and "CHR ''+'' \<in> set s"
  shows "\<exists>p q. s = p @ CHR ''+'' # q \<and> CHR ''+'' \<notin> set q
           \<and> getISOTimezoneOffset (JString s) = Inr (CHR ''+'' # q)"
  using assms(2,3,4) by (rule getISOTimezoneOffset_plus_suffix)

text \<open>
  C2 at \<open>2019-03-02T07:18:00+01:00\<close>, an input of the source's own examples.
\<close>

theorem getISOTimezoneOffset_last_plus_witness:
  "''2019-03-02T07:18:00+01:00'' \<noteq> [] \<and> CHR ''T'' \<in> set ''2019-03-02T07:18:00+01:00''
   \<and> last ''2019-03-02T07:18:00+01:00'' \<noteq> CHR ''Z''
   \<and> CHR ''+'' \<in> set ''2019-03-02T07:18:00+01:00''
   \<and> (\<exists>p q. ''2019-03-02T07:18:00+01:00'' = p @ CHR ''+'' # q \<and> CHR ''+'' \<notin> set q
         \<and> getISOTimezoneOffset (JString ''2019-03-02T07:18:00+01:00'') = Inr (CHR ''+'' # q))"
proof -
  have a: "''2019-03-02T07:18:00+01:00'' \<noteq> []"
    and b: "CHR ''T'' \<in> set ''2019-03-02T07:18:00+01:00''"
    and c: "last ''2019-03-02T07:18:00+01:00'' \<noteq> CHR ''Z''"
    and d: "CHR ''+'' \<in> set ''2019-03-02T07:18:00+01:00''"
    by simp_all
  from a b c d getISOTimezoneOffset_last_plus [OF a b c d] show ?thesis
    by (intro conjI) assumption+
qed

text \<open>
  C3. Take a string that is not empty, holds a \<open>T\<close>, does not end in \<open>Z\<close> and holds no
  \<open>+\<close>. When its last \<open>-\<close> comes after its last \<open>:\<close> (the string is \<open>p @ - # q\<close> with a
  colon in \<open>p\<close> and neither \<open>-\<close> nor \<open>:\<close> in \<open>q\<close>), the answer is \<open>- # q\<close>, the part from the
  last \<open>-\<close> to the end. In every other case, which includes the strings with no colon at
  all, the answer is \<open>UTC\<close>.
\<close>

theorem getISOTimezoneOffset_last_minus:
  assumes "s \<noteq> []" and "CHR ''T'' \<in> set s" and "last s \<noteq> CHR ''Z''"
    and "CHR ''+'' \<notin> set s"
  shows "if \<exists>p q. s = p @ CHR ''-'' # q \<and> CHR ''-'' \<notin> set q
              \<and> CHR '':'' \<in> set p \<and> CHR '':'' \<notin> set q
         then \<exists>p q. s = p @ CHR ''-'' # q \<and> CHR ''-'' \<notin> set q
                \<and> getISOTimezoneOffset (JString s) = Inr (CHR ''-'' # q)
         else getISOTimezoneOffset (JString s) = Inr ''UTC''"
proof (cases "\<exists>p q. s = p @ CHR ''-'' # q \<and> CHR ''-'' \<notin> set q
              \<and> CHR '':'' \<in> set p \<and> CHR '':'' \<notin> set q")
  case True
  then obtain p q where s: "s = p @ CHR ''-'' # q" and q: "CHR ''-'' \<notin> set q"
    "CHR '':'' \<in> set p" "CHR '':'' \<notin> set q" by blast
  have "getISOTimezoneOffset (JString (p @ CHR ''-'' # q)) = Inr (CHR ''-'' # q)"
    using assms(2,3,4) q unfolding s by (intro getISOTimezoneOffset_minus) simp_all
  with s q(1) have "\<exists>p q. s = p @ CHR ''-'' # q \<and> CHR ''-'' \<notin> set q
                \<and> getISOTimezoneOffset (JString s) = Inr (CHR ''-'' # q)" by blast
  then show ?thesis by (simp only: True if_True)
next
  case False
  then have "\<not> (\<exists>p q. s = p @ CHR ''-'' # q \<and> CHR ''-'' \<notin> set q \<and> CHR '':'' \<notin> set q
              \<and> CHR '':'' \<in> set p)" by blast
  with assms(2,3,4) have "getISOTimezoneOffset (JString s) = Inr ''UTC''"
    by (rule getISOTimezoneOffset_utc)
  then show ?thesis by (simp only: False if_False)
qed

text \<open>
  C3 on both sides: \<open>2020-10-14T14:03:00-0200\<close> gives the part from its last \<open>-\<close>, and
  \<open>2020-10-14T14:03:00\<close>, whose last \<open>-\<close> is before its colons, gives \<open>UTC\<close>.
\<close>

theorem getISOTimezoneOffset_last_minus_witness:
  "''2020-10-14T14:03:00-0200'' \<noteq> [] \<and> CHR ''T'' \<in> set ''2020-10-14T14:03:00-0200''
   \<and> last ''2020-10-14T14:03:00-0200'' \<noteq> CHR ''Z''
   \<and> CHR ''+'' \<notin> set ''2020-10-14T14:03:00-0200''
   \<and> (\<exists>p q. ''2020-10-14T14:03:00-0200'' = p @ CHR ''-'' # q \<and> CHR ''-'' \<notin> set q
         \<and> CHR '':'' \<in> set p \<and> CHR '':'' \<notin> set q)
   \<and> (\<exists>p q. ''2020-10-14T14:03:00-0200'' = p @ CHR ''-'' # q \<and> CHR ''-'' \<notin> set q
         \<and> getISOTimezoneOffset (JString ''2020-10-14T14:03:00-0200'') = Inr (CHR ''-'' # q))
   \<and> ''2020-10-14T14:03:00'' \<noteq> [] \<and> CHR ''T'' \<in> set ''2020-10-14T14:03:00''
   \<and> last ''2020-10-14T14:03:00'' \<noteq> CHR ''Z''
   \<and> CHR ''+'' \<notin> set ''2020-10-14T14:03:00''
   \<and> getISOTimezoneOffset (JString ''2020-10-14T14:03:00'') = Inr ''UTC''"
proof -
  let ?s = "''2020-10-14T14:03:00-0200''"
  have a: "?s \<noteq> []" and b: "CHR ''T'' \<in> set ?s" and c: "last ?s \<noteq> CHR ''Z''"
    and d: "CHR ''+'' \<notin> set ?s"
    by simp_all
  have ex: "\<exists>p q. ?s = p @ CHR ''-'' # q \<and> CHR ''-'' \<notin> set q
              \<and> CHR '':'' \<in> set p \<and> CHR '':'' \<notin> set q"
    by (rule exI [of _ "''2020-10-14T14:03:00''"], rule exI [of _ "''0200''"]) simp
  have r: "\<exists>p q. ?s = p @ CHR ''-'' # q \<and> CHR ''-'' \<notin> set q
         \<and> getISOTimezoneOffset (JString ?s) = Inr (CHR ''-'' # q)"
    using getISOTimezoneOffset_last_minus [OF a b c d] by (simp only: ex if_True)
  let ?t = "''2020-10-14T14:03:00''"
  have a': "?t \<noteq> []" and b': "CHR ''T'' \<in> set ?t" and c': "last ?t \<noteq> CHR ''Z''"
    and d': "CHR ''+'' \<notin> set ?t"
    by simp_all
  have nex: "\<not> (\<exists>p q. ?t = p @ CHR ''-'' # q \<and> CHR ''-'' \<notin> set q
              \<and> CHR '':'' \<in> set p \<and> CHR '':'' \<notin> set q)"
  proof
    assume "\<exists>p q. ?t = p @ CHR ''-'' # q \<and> CHR ''-'' \<notin> set q
              \<and> CHR '':'' \<in> set p \<and> CHR '':'' \<notin> set q"
    then obtain p q where e: "?t = p @ CHR ''-'' # q" and q: "CHR '':'' \<notin> set q"
      "CHR ''-'' \<notin> set q" by blast
    have "CHR ''-'' \<notin> set ''14T14:03:00''" by simp
    then have "lastIndexOf (''2020-10'' @ CHR ''-'' # ''14T14:03:00'') CHR ''-'' = 7"
      using lastIndexOf_split [of "CHR ''-''" "''14T14:03:00''" "''2020-10''"] by simp
    moreover have "lastIndexOf (p @ CHR ''-'' # q) CHR ''-'' = int (length p)"
      using q(2) by (rule lastIndexOf_split)
    ultimately have "length p = 7" using e by simp
    moreover from e have "drop (Suc (length p)) ''2020-10-14T14:03:00'' = q" by simp
    ultimately have "q = ''14T14:03:00''" by simp
    with q(1) show False by simp
  qed
  have u: "getISOTimezoneOffset (JString ?t) = Inr ''UTC''"
    using getISOTimezoneOffset_last_minus [OF a' b' c' d'] nex by (simp only: if_False)
  from a b c d ex r a' b' c' d' u show ?thesis
    by (intro conjI) assumption+
qed

text \<open>
  C10. A string that holds a \<open>T\<close>, does not end in \<open>Z\<close> and holds neither \<open>+\<close> nor \<open>:\<close> is
  answered \<open>UTC\<close>, whether or not it holds a \<open>-\<close>.
\<close>

theorem getISOTimezoneOffset_no_colon:
  assumes "CHR ''T'' \<in> set s" and "last s \<noteq> CHR ''Z''" and "CHR ''+'' \<notin> set s"
    and "CHR '':'' \<notin> set s"
  shows "getISOTimezoneOffset (JString s) = Inr ''UTC''"
  using assms(1,2,3)
proof (rule getISOTimezoneOffset_utc)
  show "\<not> (\<exists>p q. s = p @ CHR ''-'' # q \<and> CHR ''-'' \<notin> set q \<and> CHR '':'' \<notin> set q
              \<and> CHR '':'' \<in> set p)"
    using assms(4) by auto
qed

text \<open>
  C10 at the basic-format \<open>20201014T140300-0200\<close>: it holds a \<open>-\<close>, and the answer is \<open>UTC\<close>,
  not \<open>-0200\<close>.
\<close>

theorem getISOTimezoneOffset_no_colon_witness:
  "CHR ''T'' \<in> set ''20201014T140300-0200'' \<and> last ''20201014T140300-0200'' \<noteq> CHR ''Z''
   \<and> CHR ''+'' \<notin> set ''20201014T140300-0200'' \<and> CHR '':'' \<notin> set ''20201014T140300-0200''
   \<and> CHR ''-'' \<in> set ''20201014T140300-0200''
   \<and> getISOTimezoneOffset (JString ''20201014T140300-0200'') = Inr ''UTC''
   \<and> getISOTimezoneOffset (JString ''20201014T140300-0200'') \<noteq> Inr ''-0200''"
  using getISOTimezoneOffset_no_colon [of "''20201014T140300-0200''"] by simp

text \<open>
  C5, amended. For every string the answer is never empty, and it is either \<open>UTC\<close> or a
  suffix of the input that begins with \<open>+\<close> or with \<open>-\<close>. What follows the sign is taken as
  written: it need not be four digits.
\<close>

theorem getISOTimezoneOffset_shape:
  "\<exists>r. getISOTimezoneOffset (JString s) = Inr r \<and> r \<noteq> []
       \<and> (r = ''UTC'' \<or> (\<exists>p q. s = p @ r \<and> (r = CHR ''+'' # q \<or> r = CHR ''-'' # q)))"
proof -
  consider (early) "s = [] \<or> CHR ''T'' \<notin> set s \<or> last s = CHR ''Z''"
    | (plus) "s \<noteq> []" "CHR ''T'' \<in> set s" "last s \<noteq> CHR ''Z''" "CHR ''+'' \<in> set s"
    | (rest) "s \<noteq> []" "CHR ''T'' \<in> set s" "last s \<noteq> CHR ''Z''" "CHR ''+'' \<notin> set s"
    by blast
  then show ?thesis
  proof cases
    case early
    then have "getISOTimezoneOffset (JString s) = Inr ''UTC''"
      by (auto simp: getISOTimezoneOffset_def includes_js_def at_last)
    then show ?thesis by simp
  next
    case plus
    from getISOTimezoneOffset_plus_suffix [OF plus(2,3,4)] show ?thesis by blast
  next
    case rest
    show ?thesis
    proof (cases "\<exists>p q. s = p @ CHR ''-'' # q \<and> CHR ''-'' \<notin> set q \<and> CHR '':'' \<notin> set q
              \<and> CHR '':'' \<in> set p")
      case True
      then obtain p q where s: "s = p @ CHR ''-'' # q" and q: "CHR ''-'' \<notin> set q"
        "CHR '':'' \<notin> set q" "CHR '':'' \<in> set p" by blast
      have "getISOTimezoneOffset (JString (p @ CHR ''-'' # q)) = Inr (CHR ''-'' # q)"
        using rest(2,3,4) q unfolding s by (intro getISOTimezoneOffset_minus) simp_all
      with s show ?thesis by blast
    next
      case False
      with rest(2,3,4) have "getISOTimezoneOffset (JString s) = Inr ''UTC''"
        by (rule getISOTimezoneOffset_utc)
      then show ?thesis by simp
    qed
  qed
qed

text \<open>
  C5 as stated fails at \<open>2019-03-02T07:19:00+00:00\<close>, an input of the source's own test: the
  answer \<open>+00:00\<close> has six characters, so it is neither \<open>UTC\<close> nor of the form \<open>(+|-)HHMM\<close>.
\<close>

theorem getISOTimezoneOffset_colon_offset_counterexample:
  "getISOTimezoneOffset (JString ''2019-03-02T07:19:00+00:00'') = Inr ''+00:00''
   \<and> ''+00:00'' \<noteq> ''UTC'' \<and> \<not> offset_hhmm ''+00:00''"
  by (simp add: getISOTimezoneOffset_def includes_js_def at_def lastIndexOf_def slice_def
      offset_hhmm_def is_digit_def)

section \<open>The claims about parseISOToDateInTimezone\<close>

text \<open>
  C6. On a string that is not empty, \<open>parseISOToDateInTimezone\<close> warns of nothing and returns
  the value constructed from the string itself and the answer of \<open>getISOTimezoneOffset\<close> on
  that string, whatever the constructor is.
\<close>

theorem parseISOToDateInTimezone_string:
  assumes "s \<noteq> []"
  shows "\<exists>tz. getISOTimezoneOffset (JString s) = Inr tz
           \<and> parseISOToDateInTimezone now mk env (JString s)
               = \<lparr>warnings = [], result = Inr (mk (JString s) tz)\<rparr>"
proof -
  obtain tz where tz: "getISOTimezoneOffset (JString s) = Inr tz"
    using getISOTimezoneOffset_string_returns by blast
  then have "parseISOToDateInTimezone now mk env (JString s)
               = \<lparr>warnings = [], result = Inr (mk (JString s) tz)\<rparr>"
    using assms by (simp add: parseISOToDateInTimezone_def)
  with tz show ?thesis by blast
qed

text \<open>
  C6 at \<open>2020-10-14T14:03:00+0200\<close>.
\<close>

theorem parseISOToDateInTimezone_string_witness:
  "''2020-10-14T14:03:00+0200'' \<noteq> []
   \<and> (\<exists>tz. getISOTimezoneOffset (JString ''2020-10-14T14:03:00+0200'') = Inr tz
           \<and> parseISOToDateInTimezone Current TZDate2 None (JString ''2020-10-14T14:03:00+0200'')
               = \<lparr>warnings = [],
                   result = Inr (TZDate2 (JString ''2020-10-14T14:03:00+0200'') tz)\<rparr>)"
proof -
  have a: "''2020-10-14T14:03:00+0200'' \<noteq> []" by simp
  from a parseISOToDateInTimezone_string [OF a, of Current TZDate2 None] show ?thesis
    by (intro conjI) assumption+
qed

text \<open>
  C7. On a falsy input \<open>parseISOToDateInTimezone\<close> raises nothing and returns the value of
  the zero-argument constructor.
\<close>

theorem parseISOToDateInTimezone_falsy:
  assumes "\<not> truthy v"
  shows "parseISOToDateInTimezone now mk env v = \<lparr>warnings = [], result = Inr now\<rparr>"
  using assms by (simp add: parseISOToDateInTimezone_def)

text \<open>
  C7 at the empty string and at \<open>undefined\<close>.
\<close>

theorem parseISOToDateInTimezone_falsy_witness:
  "\<not> truthy (JString '''') \<and> \<not> truthy JUndefined
   \<and> parseISOToDateInTimezone Current TZDate2 None (JString '''')
       = \<lparr>warnings = [], result = Inr Current\<rparr>
   \<and> parseISOToDateInTimezone Current TZDate2 None JUndefined
       = \<lparr>warnings = [], result = Inr Current\<rparr>"
  using parseISOToDateInTimezone_falsy [of "JString ''''" Current TZDate2 None]
    parseISOToDateInTimezone_falsy [of JUndefined Current TZDate2 None]
  by simp

text \<open>
  C8, amended. On a string and on a falsy value both functions return a value. On a truthy
  value that is not a string and has no string methods, \<open>getISOTimezoneOffset\<close> raises
  \<open>TypeError\<close>, and so does \<open>parseISOToDateInTimezone\<close> outside production. With \<open>NODE_ENV\<close>
  set to \<open>production\<close>, \<open>parseISOToDateInTimezone\<close> converts such a value to a string first:
  it returns a value when the conversion yields a text, and raises the error of the
  conversion when the conversion throws.
\<close>

theorem no_error_on_strings_and_falsy:
  "(typeof v = ''string'' \<or> \<not> truthy v \<longrightarrow>
      (\<exists>tz. getISOTimezoneOffset v = Inr tz)
      \<and> (\<exists>z. result (parseISOToDateInTimezone now mk env v) = Inr z))
   \<and> (\<forall>t. String_js v = Inr t \<longrightarrow>
         (\<exists>z. result (parseISOToDateInTimezone now mk (Some ''production'') v) = Inr z))
   \<and> (typeof v \<noteq> ''string'' \<and> truthy v \<longrightarrow>
      getISOTimezoneOffset v = Inl TypeError
      \<and> (env \<noteq> Some ''production'' \<longrightarrow>
           result (parseISOToDateInTimezone now mk env v) = Inl TypeError)
      \<and> (\<forall>e. String_js v = Inl e \<longrightarrow>
           result (parseISOToDateInTimezone now mk (Some ''production'') v) = Inl e))"
proof (intro conjI impI allI)
  assume a: "typeof v = ''string'' \<or> \<not> truthy v"
  show "\<exists>tz. getISOTimezoneOffset v = Inr tz"
    using a getISOTimezoneOffset_string_returns getISOTimezoneOffset_falsy
    by (cases v) auto
  show "\<exists>z. result (parseISOToDateInTimezone now mk env v) = Inr z"
  proof (cases "truthy v")
    case False
    then show ?thesis by (simp add: parseISOToDateInTimezone_def)
  next
    case True
    with a obtain s where v: "v = JString s" by (cases v) auto
    obtain tz where "getISOTimezoneOffset (JString s) = Inr tz"
      using getISOTimezoneOffset_string_returns by blast
    then show ?thesis by (simp add: v parseISOToDateInTimezone_def)
  qed
next
  fix t
  assume t: "String_js v = Inr t"
  show "\<exists>z. result (parseISOToDateInTimezone now mk (Some ''production'') v) = Inr z"
  proof (cases "truthy v")
    case False
    then show ?thesis by (simp add: parseISOToDateInTimezone_def)
  next
    case True
    have "(if typeof v \<noteq> ''string'' then JString t else v) = JString t"
      using t by (cases v) auto
    moreover obtain tz where "getISOTimezoneOffset (JString t) = Inr tz"
      using getISOTimezoneOffset_string_returns by blast
    ultimately show ?thesis
      using True t by (auto simp add: parseISOToDateInTimezone_def Let_def)
  qed
next
  assume b: "typeof v \<noteq> ''string'' \<and> truthy v"
  then show e: "getISOTimezoneOffset v = Inl TypeError"
    by (cases v) (simp_all add: getISOTimezoneOffset_def)
  {
    assume "env \<noteq> Some ''production''"
    then show "result (parseISOToDateInTimezone now mk env v) = Inl TypeError"
      using b e by (simp add: parseISOToDateInTimezone_def Let_def)
  next
    fix e'
    assume "String_js v = Inl e'"
    then show "result (parseISOToDateInTimezone now mk (Some ''production'') v) = Inl e'"
      using b by (simp add: parseISOToDateInTimezone_def Let_def)
  }
qed

text \<open>
  C8, amended, at a malformed string, at an object that converts to a text and at an
  object whose conversion throws.
\<close>

theorem no_error_on_strings_and_falsy_witness:
  "typeof (JString ''not a date'') = ''string''
   \<and> (\<exists>tz. getISOTimezoneOffset (JString ''not a date'') = Inr tz)
   \<and> (\<exists>z. result (parseISOToDateInTimezone Current TZDate2 None (JString ''not a date'')) = Inr z)
   \<and> typeof (JObject (Inr ''Wed Oct 14 2020 14:03:00 GMT+0200'')) \<noteq> ''string''
   \<and> truthy (JObject (Inr ''Wed Oct 14 2020 14:03:00 GMT+0200''))
   \<and> String_js (JObject (Inr ''Wed Oct 14 2020 14:03:00 GMT+0200''))
       = Inr ''Wed Oct 14 2020 14:03:00 GMT+0200''
   \<and> (\<exists>z. result (parseISOToDateInTimezone Current TZDate2 (Some ''production'')
                   (JObject (Inr ''Wed Oct 14 2020 14:03:00 GMT+0200''))) = Inr z)
   \<and> typeof (JObject (Inl TypeError)) \<noteq> ''string'' \<and> truthy (JObject (Inl TypeError))
   \<and> String_js (JObject (Inl TypeError)) = Inl TypeError
   \<and> (None :: string option) \<noteq> Some ''production''
   \<and> getISOTimezoneOffset (JObject (Inl TypeError)) = Inl TypeError
   \<and> result (parseISOToDateInTimezone Current TZDate2 None (JObject (Inl TypeError)))
       = Inl TypeError
   \<and> result (parseISOToDateInTimezone Current TZDate2 (Some ''production'')
               (JObject (Inl TypeError))) = Inl TypeError"
  using no_error_on_strings_and_falsy [of "JString ''not a date''" Current TZDate2 None]
    no_error_on_strings_and_falsy
      [of "JObject (Inr ''Wed Oct 14 2020 14:03:00 GMT+0200'')" Current TZDate2 None]
    no_error_on_strings_and_falsy [of "JObject (Inl TypeError)" Current TZDate2 None]
  by simp

text \<open>
  C8 as stated fails on the input the source's comment names, a \<open>moment()\<close> object passed in
  place of its ISO string: outside production both functions raise \<open>TypeError\<close>. In
  production it fails on an object with no usable \<open>toString\<close>: the conversion raises.
\<close>

theorem moment_object_counterexample:
  "getISOTimezoneOffset (JObject (Inr ''Wed Oct 14 2020 14:03:00 GMT+0200'')) = Inl TypeError
   \<and> result (parseISOToDateInTimezone Current TZDate2 None
               (JObject (Inr ''Wed Oct 14 2020 14:03:00 GMT+0200''))) = Inl TypeError
   \<and> result (parseISOToDateInTimezone Current TZDate2 (Some ''test'')
               (JObject (Inr ''Wed Oct 14 2020 14:03:00 GMT+0200''))) = Inl TypeError
   \<and> result (parseISOToDateInTimezone Current TZDate2 (Some ''production'')
               (JObject (Inl TypeError))) = Inl TypeError"
  by (simp add: getISOTimezoneOffset_def parseISOToDateInTimezone_def)

text \<open>
  C9. With the zoned value of the specification, the hour of
  \<open>parseISOToDateInTimezone "2020-10-14T14:03:00+0200"\<close> is \<open>14\<close>, the hour written in the
  input, and the value carries the offset \<open>+0200\<close>.
\<close>

theorem parseISOToDateInTimezone_hour_as_written:
  "\<exists>z. result (parseISOToDateInTimezone Current TZDate2 env
                  (JString ''2020-10-14T14:03:00+0200'')) = Inr z
       \<and> getHours z = Some 14 \<and> offset_of z = Some ''+0200''"
  by (simp add: parseISOToDateInTimezone_def getISOTimezoneOffset_def includes_js_def at_def
      lastIndexOf_def slice_def TZDate2_def field_def is_digit_def)

end
